theory Spec2Isabelle
  imports Main "HOL-Library.Sublist"
begin

section \<open>Sessions and the world a request runs in\<close>

text \<open>
  The object \<^verbatim>\<open>session.user\<close> that Auth.js hands to the application. Only the
  fields the application reads are kept.
\<close>

record session_user =
  su_id :: string
  su_name :: "string option"
  su_email :: "string option"

text \<open>
  A session as \<^verbatim>\<open>auth()\<close> returns it: \<^verbatim>\<open>null\<close> is \<open>None\<close>, and the \<^verbatim>\<open>user\<close>
  property of a session may be missing (\<^verbatim>\<open>session?.user\<close> is tested everywhere).
\<close>

record session =
  s_user :: "session_user option"
  s_expires :: string

text \<open>
  A value that JavaScript code throws: an instance of \<^verbatim>\<open>Error\<close> with its \<^verbatim>\<open>name\<close> and
  \<^verbatim>\<open>message\<close>, or any other value.
\<close>

datatype thrown = Error string string | NonError

text \<open>
  A row of the \<^verbatim>\<open>User\<close> table behind \<^verbatim>\<open>prisma.user\<close>. Timestamps are milliseconds
  since the epoch, as \<^verbatim>\<open>Date.getTime()\<close> gives them.
\<close>

record user_row =
  u_id :: string
  u_name :: "string option"
  u_email :: "string option"
  u_emailVerified :: "int option"
  u_image :: "string option"
  u_createdAt :: int

text \<open>
  Everything outside a handler that it reads or changes: the session that \<^verbatim>\<open>auth()\<close>
  resolves for the current request, the rows of the \<^verbatim>\<open>User\<close> table, an error that the
  storage layer raises on every call while it is set (connection lost, timeout), the
  clock read by \<^verbatim>\<open>Date.now()\<close>, the paths passed to \<^verbatim>\<open>revalidatePath\<close> and the lines
  written with \<^verbatim>\<open>console.error\<close>.
\<close>

record world =
  current_session :: "session option"
  users :: "user_row list"
  storage_fault :: "thrown option"
  clock :: int
  revalidated :: "string list"
  console :: "string list"

definition auth :: "world \<Rightarrow> session option" where
  "auth w = current_session w"

text \<open>The value of \<^verbatim>\<open>session?.user\<close>: absent when there is no session or no user in it.\<close>

definition session_user_of :: "session option \<Rightarrow> session_user option" where
  "session_user_of s = (case s of None \<Rightarrow> None | Some x \<Rightarrow> s_user x)"

section \<open>The edge checkpoint (proxy.ts)\<close>

record url =
  origin :: string
  pathname :: string
  searchParams :: "(string \<times> string) list"

record request =
  nextUrl :: url

text \<open>
  \<^verbatim>\<open>new URL(path, base)\<close> for an absolute path without query: the origin of the base,
  the given path, no search parameters.
\<close>

definition new_URL :: "string \<Rightarrow> url \<Rightarrow> url" where
  "new_URL path base = \<lparr>origin = origin base, pathname = path, searchParams = []\<rparr>"

text \<open>
  \<^verbatim>\<open>URLSearchParams.set\<close>: the first pair with the name gets the value and the later ones
  with that name are removed; without such a pair one is appended.
\<close>

fun params_set :: "(string \<times> string) list \<Rightarrow> string \<Rightarrow> string \<Rightarrow> (string \<times> string) list" where
  "params_set [] k v = [(k, v)]"
| "params_set ((k', v') # ps) k v =
     (if k' = k then (k, v) # filter (\<lambda>p. fst p \<noteq> k) ps else (k', v') # params_set ps k v)"

text \<open>\<^verbatim>\<open>URLSearchParams.get\<close>: the value of the first pair with the name.\<close>

definition params_get :: "(string \<times> string) list \<Rightarrow> string \<Rightarrow> string option" where
  "params_get ps k = map_of ps k"

definition searchParams_set :: "url \<Rightarrow> string \<Rightarrow> string \<Rightarrow> url" where
  "searchParams_set u k v = u\<lparr>searchParams := params_set (searchParams u) k v\<rparr>"

datatype response = Next | Redirect url

definition authRoutes :: "string list" where
  "authRoutes = [''/auth/signin'', ''/auth/error'', ''/auth/signout'', ''/api/auth'']"

definition publicRoutes :: "string list" where
  "publicRoutes = []"

text \<open>\<^verbatim>\<open>routes.some(...)\<close> with the three tests of the callback in their order.\<close>

definition isRouteMatch :: "string \<Rightarrow> string list \<Rightarrow> bool" where
  "isRouteMatch p routes =
     list_ex (\<lambda>route.
       if p = route then True
       else if prefix ''/api/'' route \<and> prefix route p then True
       else if prefix ''/auth'' route \<and> prefix route p then True
       else False) routes"

definition proxy :: "world \<Rightarrow> request \<Rightarrow> response" where
  "proxy w req =
     (let p = pathname (nextUrl req) in
      if isRouteMatch p authRoutes then Next
      else if isRouteMatch p publicRoutes then Next
      else (case session_user_of (auth w) of
              None \<Rightarrow>
                (let signInUrl = new_URL ''/auth/signin'' (nextUrl req);
                     signInUrl = searchParams_set signInUrl ''callbackUrl'' p
                 in Redirect signInUrl)
            | Some _ \<Rightarrow> Next))"

text \<open>
  The pattern of \<^verbatim>\<open>config.matcher\<close>,
  \<^verbatim>\<open>/((?!api/auth|auth|_next/static|_next/image|favicon.ico|.*\..*).*)\<close>, read as a
  regular expression on the whole pathname: a slash, and then a rest at whose start none
  of the alternatives of the negative lookahead matches. The first four alternatives are
  prefixes of the rest; in \<^verbatim>\<open>favicon.ico\<close> the dot stands for any one character; the
  last alternative matches when the rest has a dot anywhere. (A dot of the pattern
  matches every character but a line terminator, and a pathname has none.) What the
  framework adds around the pattern for its own data requests and base path is left out.
\<close>

definition matcher_excluded :: "string \<Rightarrow> bool" where
  "matcher_excluded rest =
     (prefix ''api/auth'' rest \<or> prefix ''auth'' rest \<or>
      prefix ''_next/static'' rest \<or> prefix ''_next/image'' rest \<or>
      (prefix ''favicon'' rest \<and> prefix ''ico'' (drop 8 rest)) \<or>
      CHR ''.'' \<in> set rest)"

definition config_matcher :: "string \<Rightarrow> bool" where
  "config_matcher p =
     (case p of [] \<Rightarrow> False | c # rest \<Rightarrow> c = CHR ''/'' \<and> \<not> matcher_excluded rest)"



section \<open>Page and API guards (lib/auth-utils.ts)\<close>

definition AuthenticationError :: "string \<Rightarrow> thrown" where
  "AuthenticationError message = Error ''AuthenticationError'' message"

text \<open>
  A session whose \<^verbatim>\<open>user\<close> is known to be present: what the type checker knows about
  \<^verbatim>\<open>session\<close> after the test \<^verbatim>\<open>!session?.user\<close> has failed.
\<close>

record authed_session =
  a_user :: session_user
  a_expires :: string

text \<open>\<^verbatim>\<open>requireAuth\<close> throws (\<open>Inl\<close>) or returns the session (\<open>Inr\<close>).\<close>

definition requireAuth :: "world \<Rightarrow> thrown + authed_session" where
  "requireAuth w =
     (case auth w of
        None \<Rightarrow> Inl (AuthenticationError ''You must be signed in to access this resource'')
      | Some s \<Rightarrow>
          (case s_user s of
             None \<Rightarrow> Inl (AuthenticationError ''You must be signed in to access this resource'')
           | Some u \<Rightarrow> Inr \<lparr>a_user = u, a_expires = s_expires s\<rparr>))"

definition requireUser :: "world \<Rightarrow> thrown + session_user" where
  "requireUser w =
     (case requireAuth w of
        Inl e \<Rightarrow> Inl e
      | Inr s \<Rightarrow> Inr (a_user s))"

text \<open>
  \<^verbatim>\<open>requireAuthWithRedirect\<close>: \<^verbatim>\<open>redirect(url)\<close> leaves the page with the target
  (\<open>Inl\<close>); otherwise the session is returned. The test \<^verbatim>\<open>redirectTo ? ... : ...\<close> is
  one of truthiness: a missing and an empty \<^verbatim>\<open>redirectTo\<close> both give the plain sign-in
  path. \<^verbatim>\<open>encodeURIComponent\<close> is a parameter.
\<close>

definition requireAuthWithRedirect ::
    "(string \<Rightarrow> string) \<Rightarrow> world \<Rightarrow> string option \<Rightarrow> string + authed_session" where
  "requireAuthWithRedirect encodeURIComponent w redirectTo =
     (let signInUrl =
            (case redirectTo of
               Some r \<Rightarrow>
                 (if r = [] then ''/auth/signin''
                  else ''/auth/signin?callbackUrl='' @ encodeURIComponent r)
             | None \<Rightarrow> ''/auth/signin'')
      in case auth w of
           None \<Rightarrow> Inl signInUrl
         | Some s \<Rightarrow>
             (case s_user s of
                None \<Rightarrow> Inl signInUrl
              | Some u \<Rightarrow> Inr \<lparr>a_user = u, a_expires = s_expires s\<rparr>))"

definition getOptionalAuth :: "world \<Rightarrow> session option" where
  "getOptionalAuth w = auth w"

text \<open>
  JSON values: request bodies after \<^verbatim>\<open>request.json()\<close>, and response bodies. An object
  is the list of its properties, read with \<open>map_of\<close>. The value of a number is never
  looked at; a string is the list of its code units, which is what \<^verbatim>\<open>length\<close> counts.
\<close>

datatype json =
  JNull | JBool bool | JNum int | JStr string | JArr "json list" | JObj "(string \<times> json) list"

record http_response =
  status :: nat
  body :: json

definition Response_json :: "json \<Rightarrow> nat \<Rightarrow> http_response" where
  "Response_json b st = \<lparr>status = st, body = b\<rparr>"

text \<open>The two shapes \<^verbatim>\<open>requireApiAuth\<close> returns: \<^verbatim>\<open>{ error, response }\<close> or \<^verbatim>\<open>{ user }\<close>.\<close>

datatype api_auth = ApiDenied string http_response | ApiUser session_user

definition requireApiAuth :: "world \<Rightarrow> api_auth" where
  "requireApiAuth w =
     (let s = auth w in
      case session_user_of s of
        None \<Rightarrow>
          ApiDenied ''Unauthorized''
            (Response_json (JObj [(''error'', JStr ''Authentication required'')]) 401)
      | Some u \<Rightarrow> ApiUser u)"

section \<open>Storage (the Prisma client over the User table)\<close>

definition record_not_found :: thrown where
  "record_not_found =
     Error ''PrismaClientKnownRequestError''
       ''An operation failed because it depends on one or more records that were required but not found.''"

definition unique_constraint_failed :: thrown where
  "unique_constraint_failed =
     Error ''PrismaClientKnownRequestError'' ''Unique constraint failed on the fields: (`email`)''"

definition find_user :: "user_row list \<Rightarrow> string \<Rightarrow> user_row option" where
  "find_user rows i = find (\<lambda>r. u_id r = i) rows"

text \<open>\<^verbatim>\<open>prisma.user.findUnique({ where: { id } })\<close>.\<close>

definition prisma_user_findUnique :: "world \<Rightarrow> string \<Rightarrow> thrown + user_row option" where
  "prisma_user_findUnique w i =
     (case storage_fault w of
        Some e \<Rightarrow> Inl e
      | None \<Rightarrow> Inr (find_user (users w) i))"

text \<open>
  Modelled from the spec: the table declaration (prisma/schema.prisma) is not among the
  sources. The data model of the specification gives an account a unique identifier and
  an optional email that is unique across accounts when present; an update that would
  give a row the email of another row fails with the client's unique-constraint error
  and writes nothing.
\<close>

definition email_taken :: "user_row list \<Rightarrow> string \<Rightarrow> string \<Rightarrow> bool" where
  "email_taken rows i e = list_ex (\<lambda>r. u_id r \<noteq> i \<and> u_email r = Some e) rows"

text \<open>
  \<^verbatim>\<open>prisma.user.update({ where: { id }, data })\<close> with the optional new name and email:
  properties left out of \<^verbatim>\<open>data\<close> keep their value. The client throws when the
  storage fails and when no row has the identifier.
\<close>

definition prisma_user_update ::
    "world \<Rightarrow> string \<Rightarrow> string option \<Rightarrow> string option \<Rightarrow> thrown + (user_row \<times> world)" where
  "prisma_user_update w i new_name new_email =
     (case storage_fault w of
        Some e \<Rightarrow> Inl e
      | None \<Rightarrow>
          (case find_user (users w) i of
             None \<Rightarrow> Inl record_not_found
           | Some r \<Rightarrow>
               if (case new_email of None \<Rightarrow> False | Some e \<Rightarrow> email_taken (users w) i e)
               then Inl unique_constraint_failed
               else
                 (let r' = r\<lparr>u_name := (case new_name of None \<Rightarrow> u_name r | Some n \<Rightarrow> Some n),
                              u_email := (case new_email of None \<Rightarrow> u_email r | Some e \<Rightarrow> Some e)\<rparr>
                  in Inr (r', w\<lparr>users := map (\<lambda>x. if u_id x = i then r' else x) (users w)\<rparr>))))"

text \<open>\<^verbatim>\<open>tx.user.delete({ where: { id } })\<close> inside \<^verbatim>\<open>prisma.$transaction\<close>.\<close>

definition prisma_user_delete :: "world \<Rightarrow> string \<Rightarrow> thrown + world" where
  "prisma_user_delete w i =
     (case storage_fault w of
        Some e \<Rightarrow> Inl e
      | None \<Rightarrow>
          (case find_user (users w) i of
             None \<Rightarrow> Inl record_not_found
           | Some _ \<Rightarrow> Inr (w\<lparr>users := filter (\<lambda>x. u_id x \<noteq> i) (users w)\<rparr>)))"

definition revalidatePath :: "world \<Rightarrow> string \<Rightarrow> world" where
  "revalidatePath w p = w\<lparr>revalidated := revalidated w @ [p]\<rparr>"

definition console_error :: "world \<Rightarrow> string \<Rightarrow> world" where
  "console_error w line = w\<lparr>console := console w @ [line]\<rparr>"

text \<open>\<^verbatim>\<open>String.prototype.includes\<close>.\<close>

fun str_includes :: "string \<Rightarrow> string \<Rightarrow> bool" where
  "str_includes [] sub = (sub = [])"
| "str_includes (c # cs) sub = (prefix sub (c # cs) \<or> str_includes cs sub)"

section \<open>Input validation (the zod schemas)\<close>

text \<open>
  The validation library is not part of the repository. What it decides on its own is a
  parameter of the model: which strings \<^verbatim>\<open>z.string().email()\<close> accepts, and the text of
  the messages the library writes where the schema gives none.
\<close>

datatype issue_code = invalid_type | too_small | too_big | invalid_string

record zod =
  email_format :: "string \<Rightarrow> bool"
  default_message :: "issue_code \<Rightarrow> string"

text \<open>An issue is the path of the offending property and a message.\<close>

type_synonym issue = "string list \<times> string"

datatype 'a safe_parse = ParseSuccess 'a | ParseFailure "issue list"

text \<open>
  \<^verbatim>\<open>error.flatten().fieldErrors\<close>: the messages of the issues with a non-empty path,
  collected under the first element of the path, in the order of the issues.
\<close>

fun add_field_error ::
    "(string \<times> string list) list \<Rightarrow> string \<Rightarrow> string \<Rightarrow> (string \<times> string list) list" where
  "add_field_error [] k m = [(k, [m])]"
| "add_field_error ((k', ms) # rest) k m =
     (if k' = k then (k', ms @ [m]) # rest else (k', ms) # add_field_error rest k m)"

definition fieldErrors :: "issue list \<Rightarrow> (string \<times> string list) list" where
  "fieldErrors issues =
     foldl (\<lambda>acc i. case fst i of [] \<Rightarrow> acc | k # _ \<Rightarrow> add_field_error acc k (snd i)) [] issues"

text \<open>\<^verbatim>\<open>z.string().min(1).max(100).optional()\<close> on the property \<^verbatim>\<open>name\<close> of the body.\<close>

definition settings_name_issues :: "zod \<Rightarrow> json option \<Rightarrow> string list" where
  "settings_name_issues z v =
     (case v of
        None \<Rightarrow> []
      | Some (JStr s) \<Rightarrow>
          (if length s < 1 then [default_message z too_small] else []) @
          (if 100 < length s then [default_message z too_big] else [])
      | Some _ \<Rightarrow> [default_message z invalid_type])"

text \<open>\<^verbatim>\<open>z.string().email().optional()\<close> on the property \<^verbatim>\<open>email\<close> of the body.\<close>

definition settings_email_issues :: "zod \<Rightarrow> json option \<Rightarrow> string list" where
  "settings_email_issues z v =
     (case v of
        None \<Rightarrow> []
      | Some (JStr s) \<Rightarrow> (if email_format z s then [] else [default_message z invalid_string])
      | Some _ \<Rightarrow> [default_message z invalid_type])"

record settings_data =
  new_name :: "string option"
  new_email :: "string option"

definition json_string :: "json option \<Rightarrow> string option" where
  "json_string v = (case v of Some (JStr s) \<Rightarrow> Some s | _ \<Rightarrow> None)"

text \<open>
  \<^verbatim>\<open>updateSettingsSchema.safeParse(body)\<close>. The schema is a plain \<^verbatim>\<open>z.object\<close>: a body
  that is not an object fails with an issue at the root, and properties other than
  \<^verbatim>\<open>name\<close> and \<^verbatim>\<open>email\<close> are dropped without an issue.
\<close>

definition updateSettingsSchema_safeParse :: "zod \<Rightarrow> json \<Rightarrow> settings_data safe_parse" where
  "updateSettingsSchema_safeParse z b =
     (case b of
        JObj props \<Rightarrow>
          (let n = map_of props ''name'';
               e = map_of props ''email'';
               issues = map (\<lambda>m. ([''name''], m)) (settings_name_issues z n) @
                        map (\<lambda>m. ([''email''], m)) (settings_email_issues z e)
           in if issues = []
              then ParseSuccess \<lparr>new_name = json_string n, new_email = json_string e\<rparr>
              else ParseFailure issues)
      | _ \<Rightarrow> ParseFailure [([], default_message z invalid_type)])"

text \<open>
  A form field as \<^verbatim>\<open>formData.get\<close> returns it: a string or a file; \<^verbatim>\<open>null\<close> is \<open>None\<close>.
\<close>

datatype form_value = FormText string | FormFile

type_synonym form_data = "(string \<times> form_value) list"

definition formData_get :: "form_data \<Rightarrow> string \<Rightarrow> form_value option" where
  "formData_get fd k = map_of fd k"

text \<open>
  \<^verbatim>\<open>updateProfileSchema.safeParse({ name })\<close>, with the messages the schema gives for the
  two length checks.
\<close>

definition updateProfileSchema_safeParse :: "zod \<Rightarrow> form_value option \<Rightarrow> string safe_parse" where
  "updateProfileSchema_safeParse z v =
     (case v of
        Some (FormText s) \<Rightarrow>
          (let issues =
                 (if length s < 1 then [([''name''], ''Name must not be empty'')] else []) @
                 (if 100 < length s then [([''name''], ''Name too long'')] else [])
           in if issues = [] then ParseSuccess s else ParseFailure issues)
      | _ \<Rightarrow> ParseFailure [([''name''], default_message z invalid_type)])"

text \<open>\<^verbatim>\<open>errors[0]?.message || "Invalid input"\<close>: an empty message counts as missing.\<close>

definition first_message :: "issue list \<Rightarrow> string" where
  "first_message issues =
     (case issues of
        [] \<Rightarrow> ''Invalid input''
      | i # _ \<Rightarrow> (if snd i = [] then ''Invalid input'' else snd i))"

section \<open>The settings route (app/api/user/settings/route.ts)\<close>

definition NextResponse_json :: "json \<Rightarrow> nat \<Rightarrow> http_response" where
  "NextResponse_json b st = \<lparr>status = st, body = b\<rparr>"

definition json_of :: "string option \<Rightarrow> json" where
  "json_of v = (case v of None \<Rightarrow> JNull | Some s \<Rightarrow> JStr s)"

definition settings_json :: "user_row \<Rightarrow> json" where
  "settings_json r =
     JObj [(''id'', JStr (u_id r)), (''name'', json_of (u_name r)), (''email'', json_of (u_email r))]"

definition internal_server_error :: http_response where
  "internal_server_error = NextResponse_json (JObj [(''error'', JStr ''Internal server error'')]) 500"

text \<open>
  A request to the route is given by what \<^verbatim>\<open>request.json()\<close> does with its body: it
  returns the parsed value, or throws (a \<^verbatim>\<open>SyntaxError\<close> with a message of the JavaScript
  engine) when the body is not JSON text.
\<close>

record api_request =
  request_json :: "thrown + json"

definition GET_settings :: "world \<Rightarrow> http_response \<times> world" where
  "GET_settings w =
     (case requireApiAuth w of
        ApiDenied _ resp \<Rightarrow> (resp, w)
      | ApiUser user \<Rightarrow>
          (case prisma_user_findUnique w (su_id user) of
             Inl error \<Rightarrow>
               (internal_server_error, console_error w ''Error fetching user settings:'')
           | Inr None \<Rightarrow> (NextResponse_json (JObj [(''error'', JStr ''User not found'')]) 404, w)
           | Inr (Some r) \<Rightarrow>
               (NextResponse_json (JObj [(''settings'', settings_json r)]) 200, w)))"

text \<open>The \<^verbatim>\<open>try\<close> block of \<^verbatim>\<open>PUT\<close>: \<open>Inl\<close> is a value thrown inside it.\<close>

definition PUT_try ::
    "zod \<Rightarrow> world \<Rightarrow> session_user \<Rightarrow> api_request \<Rightarrow> (thrown + http_response) \<times> world" where
  "PUT_try z w user req =
     (case request_json req of
        Inl e \<Rightarrow> (Inl e, w)
      | Inr b \<Rightarrow>
          (case updateSettingsSchema_safeParse z b of
             ParseFailure issues \<Rightarrow>
               (Inr (NextResponse_json
                       (JObj [(''error'', JStr ''Invalid input''),
                              (''details'',
                               JObj (map (\<lambda>f. (fst f, JArr (map JStr (snd f)))) (fieldErrors issues)))])
                       400), w)
           | ParseSuccess d \<Rightarrow>
               (case prisma_user_update w (su_id user) (new_name d) (new_email d) of
                  Inl e \<Rightarrow> (Inl e, w)
                | Inr (updatedUser, w') \<Rightarrow>
                    (Inr (NextResponse_json
                            (JObj [(''settings'', settings_json updatedUser),
                                   (''message'', JStr ''Settings updated successfully'')])
                            200), w'))))"

text \<open>The \<^verbatim>\<open>catch\<close> block of \<^verbatim>\<open>PUT\<close>.\<close>

definition PUT_catch :: "thrown \<Rightarrow> http_response" where
  "PUT_catch error =
     (case error of
        Error _ message \<Rightarrow>
          (if str_includes message ''Unique constraint''
           then NextResponse_json (JObj [(''error'', JStr ''Email already in use'')]) 409
           else internal_server_error)
      | NonError \<Rightarrow> internal_server_error)"

definition PUT :: "zod \<Rightarrow> world \<Rightarrow> api_request \<Rightarrow> http_response \<times> world" where
  "PUT z w req =
     (case requireApiAuth w of
        ApiDenied _ resp \<Rightarrow> (resp, w)
      | ApiUser user \<Rightarrow>
          (case PUT_try z w user req of
             (Inr resp, w') \<Rightarrow> (resp, w')
           | (Inl error, w') \<Rightarrow>
               (PUT_catch error, console_error w' ''Error updating user settings:'')))"

section \<open>Server actions (app/actions/user-actions.ts)\<close>

datatype 'a ActionResult = Success 'a | Failure string

record profile_data =
  pd_name :: string
  pd_email :: string

text \<open>\<^verbatim>\<open>value || ""\<close> on a nullable string.\<close>

definition or_empty :: "string option \<Rightarrow> string" where
  "or_empty v = (case v of None \<Rightarrow> [] | Some s \<Rightarrow> s)"

text \<open>
  \<^verbatim>\<open>error instanceof Error && error.name === "AuthenticationError"\<close>.
\<close>

definition is_AuthenticationError :: "thrown \<Rightarrow> bool" where
  "is_AuthenticationError error =
     (case error of Error n _ \<Rightarrow> n = ''AuthenticationError'' | NonError \<Rightarrow> False)"

text \<open>
  Each action is a \<^verbatim>\<open>try\<close> block and a \<^verbatim>\<open>catch\<close> block. The \<^verbatim>\<open>try\<close> block returns a
  result (\<open>Inr\<close>) or throws (\<open>Inl\<close>); the action is the block with the handler applied.
  The type of an action still allows a thrown value, so that not throwing is a property
  to prove.
\<close>

definition updateProfile_try ::
    "zod \<Rightarrow> world \<Rightarrow> form_data \<Rightarrow> (thrown + profile_data ActionResult) \<times> world" where
  "updateProfile_try z w formData =
     (case requireUser w of
        Inl e \<Rightarrow> (Inl e, w)
      | Inr user \<Rightarrow>
          (let name = formData_get formData ''name'' in
           case updateProfileSchema_safeParse z name of
             ParseFailure issues \<Rightarrow> (Inr (Failure (first_message issues)), w)
           | ParseSuccess validName \<Rightarrow>
               (case prisma_user_update w (su_id user) (Some validName) None of
                  Inl e \<Rightarrow> (Inl e, w)
                | Inr (updatedUser, w1) \<Rightarrow>
                    (let w2 = revalidatePath w1 ''/dashboard'';
                         w3 = revalidatePath w2 ''/''
                     in (Inr (Success \<lparr>pd_name = or_empty (u_name updatedUser),
                                        pd_email = or_empty (u_email updatedUser)\<rparr>), w3)))))"

definition updateProfile ::
    "zod \<Rightarrow> world \<Rightarrow> form_data \<Rightarrow> (thrown + profile_data ActionResult) \<times> world" where
  "updateProfile z w formData =
     (case updateProfile_try z w formData of
        (Inr r, w') \<Rightarrow> (Inr r, w')
      | (Inl error, w') \<Rightarrow>
          (let w'' = console_error w' ''Error updating profile:'' in
           if is_AuthenticationError error
           then (Inr (Failure ''You must be signed in to update your profile''), w'')
           else (Inr (Failure ''Failed to update profile. Please try again.''), w'')))"

record deleted_data =
  deleted :: bool

definition deleteAccount_try :: "world \<Rightarrow> (thrown + deleted_data ActionResult) \<times> world" where
  "deleteAccount_try w =
     (case requireUser w of
        Inl e \<Rightarrow> (Inl e, w)
      | Inr user \<Rightarrow>
          (case prisma_user_delete w (su_id user) of
             Inl e \<Rightarrow> (Inl e, w)
           | Inr w' \<Rightarrow> (Inr (Success \<lparr>deleted = True\<rparr>), w')))"

definition deleteAccount :: "world \<Rightarrow> (thrown + deleted_data ActionResult) \<times> world" where
  "deleteAccount w =
     (case deleteAccount_try w of
        (Inr r, w') \<Rightarrow> (Inr r, w')
      | (Inl error, w') \<Rightarrow>
          (let w'' = console_error w' ''Error deleting account:'' in
           if is_AuthenticationError error
           then (Inr (Failure ''You must be signed in to delete your account''), w'')
           else (Inr (Failure ''Failed to delete account. Please try again.''), w'')))"

text \<open>
  \<^verbatim>\<open>lastSignIn\<close> is a nullable date. The age is
  \<^verbatim>\<open>Math.floor((Date.now() - user.createdAt.getTime()) / (1000 * 60 * 60 * 24))\<close>; both
  times are whole numbers of milliseconds, and on whole numbers the floor of the quotient
  is \<open>div\<close> (which rounds towards minus infinity, as \<^verbatim>\<open>Math.floor\<close> does).
\<close>

record user_stats =
  accountAge :: int
  lastSignIn :: "int option"

definition Date_now :: "world \<Rightarrow> int" where
  "Date_now w = clock w"

definition getUserStats_try :: "world \<Rightarrow> (thrown + user_stats ActionResult) \<times> world" where
  "getUserStats_try w =
     (case requireAuth w of
        Inl e \<Rightarrow> (Inl e, w)
      | Inr s \<Rightarrow>
          (case prisma_user_findUnique w (su_id (a_user s)) of
             Inl e \<Rightarrow> (Inl e, w)
           | Inr None \<Rightarrow> (Inr (Failure ''User not found''), w)
           | Inr (Some user) \<Rightarrow>
               (let accountAgeInDays = (Date_now w - u_createdAt user) div (1000 * 60 * 60 * 24)
                in (Inr (Success \<lparr>accountAge = accountAgeInDays, lastSignIn = None\<rparr>), w))))"

definition getUserStats :: "world \<Rightarrow> (thrown + user_stats ActionResult) \<times> world" where
  "getUserStats w =
     (case getUserStats_try w of
        (Inr r, w') \<Rightarrow> (Inr r, w')
      | (Inl error, w') \<Rightarrow>
          (let w'' = console_error w' ''Error fetching user stats:'' in
           if is_AuthenticationError error
           then (Inr (Failure ''You must be signed in to view stats''), w'')
           else (Inr (Failure ''Failed to fetch stats''), w'')))"

section \<open>The \<^verbatim>\<open>authorized\<close> callback of the Auth.js configuration (auth.ts)\<close>



section \<open>The authentication ceremony (specification, section 4.1)\<close>

text \<open>
  The credential records of the data model (specification, section 3) and an assertion
  as the ceremony receives it. The outcome of the verifications of origin, relying-party
  hash, challenge and signature is a field of the assertion.
\<close>

record credential =
  cr_id :: string
  cr_account :: string
  cr_public_key :: string
  cr_counter :: nat

record assertion =
  as_credential :: string
  as_counter :: nat
  as_verified :: bool

datatype ceremony_error = UnknownCredential | VerificationFailed | CounterRegression

definition find_credential :: "credential list \<Rightarrow> string \<Rightarrow> credential option" where
  "find_credential creds k = find (\<lambda>c. cr_id c = k) creds"

text \<open>
  Modelled from the spec: the passkey ceremony is run by the Auth.js passkey provider
  that auth.ts configures (\<^verbatim>\<open>Passkey({ rpID, rpName, origin })\<close>); the code that stores
  credentials, checks an assertion and keeps the signature counter is not among the
  sources. The definition follows the steps of "Authentication" in section 4.1 of the
  specification: (2) resolve the credential by its identifier and reject if it is
  unknown; (3) verify origin, relying-party hash, challenge and signature; (4) accept the
  counter only if it is strictly greater than the stored one, or both are zero; (5) store
  the new counter.
\<close>

definition counter_accepted :: "nat \<Rightarrow> nat \<Rightarrow> bool" where
  "counter_accepted presented stored = (stored < presented \<or> (presented = 0 \<and> stored = 0))"

definition complete_authentication ::
    "credential list \<Rightarrow> assertion \<Rightarrow> ceremony_error + (string \<times> credential list)" where
  "complete_authentication creds a =
     (case find_credential creds (as_credential a) of
        None \<Rightarrow> Inl UnknownCredential
      | Some c \<Rightarrow>
          if \<not> as_verified a then Inl VerificationFailed
          else if \<not> counter_accepted (as_counter a) (cr_counter c) then Inl CounterRegression
          else Inr (cr_account c,
                    map (\<lambda>x. if cr_id x = as_credential a then x\<lparr>cr_counter := as_counter a\<rparr> else x)
                      creds))"

section \<open>Concrete requests and worlds\<close>

definition alice :: session_user where
  "alice = \<lparr>su_id = ''u1'', su_name = Some ''Alice'', su_email = Some ''alice@example.com''\<rparr>"

definition alice_row :: user_row where
  "alice_row =
     \<lparr>u_id = ''u1'', u_name = Some ''Alice'', u_email = Some ''alice@example.com'',
      u_emailVerified = None, u_image = None, u_createdAt = 1700000000000\<rparr>"

definition bob_row :: user_row where
  "bob_row =
     \<lparr>u_id = ''u2'', u_name = Some ''Bob'', u_email = Some ''bob@example.com'',
      u_emailVerified = None, u_image = None, u_createdAt = 1700000500000\<rparr>"

definition signed_out :: world where
  "signed_out =
     \<lparr>current_session = None, users = [alice_row, bob_row], storage_fault = None,
      clock = 1700259205000, revalidated = [], console = []\<rparr>"

definition signed_in :: world where
  "signed_in =
     signed_out\<lparr>current_session :=
       Some \<lparr>s_user = Some alice, s_expires = ''2030-01-01T00:00:00.000Z''\<rparr>\<rparr>"

definition request_to :: "string \<Rightarrow> request" where
  "request_to p =
     \<lparr>nextUrl = \<lparr>origin = ''http://localhost:3000'', pathname = p, searchParams = []\<rparr>\<rparr>"

definition example_zod :: zod where
  "example_zod =
     \<lparr>email_format = (\<lambda>s. CHR ''@'' \<in> set s),
      default_message =
        (\<lambda>c. case c of
               invalid_type \<Rightarrow> ''Expected string''
             | too_small \<Rightarrow> ''String must contain at least 1 character(s)''
             | too_big \<Rightarrow> ''String must contain at most 100 character(s)''
             | invalid_string \<Rightarrow> ''Invalid email'')\<rparr>"

definition example_credentials :: "credential list" where
  "example_credentials =
     [\<lparr>cr_id = ''k1'', cr_account = ''u1'', cr_public_key = ''pk1'', cr_counter = 7\<rparr>,
      \<lparr>cr_id = ''k2'', cr_account = ''u2'', cr_public_key = ''pk2'', cr_counter = 0\<rparr>]"

section \<open>Properties of the edge checkpoint\<close>

lemma params_get_set: "params_get (params_set ps k v) k = Some v"
  by (induction ps) (auto simp: params_get_def)

lemma proxy_no_session:
  "\<not> isRouteMatch (pathname (nextUrl req)) authRoutes \<Longrightarrow>
   \<not> isRouteMatch (pathname (nextUrl req)) publicRoutes \<Longrightarrow>
   session_user_of (auth w) = None \<Longrightarrow>
     proxy w req =
       Redirect \<lparr>origin = origin (nextUrl req), pathname = ''/auth/signin'',
                 searchParams = [(''callbackUrl'', pathname (nextUrl req))]\<rparr>"
  by (simp add: proxy_def Let_def new_URL_def searchParams_set_def)









text \<open>
  Claim C4. For a request to a protected path (one that neither route list of the proxy
  matches; the paths for which the framework calls the proxy are among them) the proxy
  redirects to the sign-in endpoint on the request's origin when no session user
  resolves, and the \<^verbatim>\<open>callbackUrl\<close> parameter of the redirect is the path of the
  request; when a session user resolves the request goes on unchanged.
\<close>

theorem proxy_protected_decision:
  "\<not> isRouteMatch (pathname (nextUrl req)) authRoutes \<and>
   \<not> isRouteMatch (pathname (nextUrl req)) publicRoutes \<Longrightarrow>
     (session_user_of (auth w) = None \<longrightarrow>
        (\<exists>u. proxy w req = Redirect u \<and> pathname u = ''/auth/signin'' \<and>
              origin u = origin (nextUrl req) \<and>
              params_get (searchParams u) ''callbackUrl'' = Some (pathname (nextUrl req)))) \<and>
     (session_user_of (auth w) \<noteq> None \<longrightarrow> proxy w req = Next)"
  by (auto simp: proxy_def Let_def new_URL_def searchParams_set_def
      params_get_def split: option.splits)

text \<open>
  The dashboard, requested without a session and with Alice's session.
\<close>

theorem proxy_protected_decision_witness:
  "\<not> isRouteMatch (pathname (nextUrl (request_to ''/dashboard''))) authRoutes \<and>
   \<not> isRouteMatch (pathname (nextUrl (request_to ''/dashboard''))) publicRoutes \<and>
   config_matcher (pathname (nextUrl (request_to ''/dashboard''))) \<and>
   session_user_of (auth signed_out) = None \<and>
   proxy signed_out (request_to ''/dashboard'') =
     Redirect \<lparr>origin = ''http://localhost:3000'', pathname = ''/auth/signin'',
               searchParams = [(''callbackUrl'', ''/dashboard'')]\<rparr> \<and>
   session_user_of (auth signed_in) \<noteq> None \<and>
   proxy signed_in (request_to ''/dashboard'') = Next"
  using proxy_protected_decision [of "request_to ''/dashboard''" signed_out]
    proxy_protected_decision [of "request_to ''/dashboard''" signed_in]
  by (simp add: isRouteMatch_def authRoutes_def publicRoutes_def config_matcher_def
      matcher_excluded_def request_to_def signed_out_def signed_in_def auth_def
      session_user_of_def proxy_def new_URL_def searchParams_set_def alice_def)

section \<open>Route classification\<close>




section \<open>The guards without a session\<close>

lemma requireAuth_no_session:
  "session_user_of (auth w) = None \<Longrightarrow>
     requireAuth w = Inl (AuthenticationError ''You must be signed in to access this resource'')"
  by (auto simp: requireAuth_def session_user_of_def split: option.splits)

lemma requireAuth_session:
  "session_user_of (auth w) = Some u \<Longrightarrow> \<exists>s. requireAuth w = Inr s \<and> a_user s = u"
  by (auto simp: requireAuth_def session_user_of_def split: option.splits)

lemma requireUser_no_session:
  "session_user_of (auth w) = None \<Longrightarrow>
     requireUser w = Inl (AuthenticationError ''You must be signed in to access this resource'')"
  by (simp add: requireUser_def requireAuth_no_session)

lemma requireUser_session:
  "session_user_of (auth w) = Some u \<Longrightarrow> requireUser w = Inr u"
  using requireAuth_session [of w u] by (auto simp: requireUser_def)

lemma requireApiAuth_no_session:
  "session_user_of (auth w) = None \<Longrightarrow>
     requireApiAuth w =
       ApiDenied ''Unauthorized''
         (Response_json (JObj [(''error'', JStr ''Authentication required'')]) 401)"
  by (simp add: requireApiAuth_def)

lemma requireApiAuth_session:
  "session_user_of (auth w) = Some u \<Longrightarrow> requireApiAuth w = ApiUser u"
  by (simp add: requireApiAuth_def)

lemma is_AuthenticationError_simp [simp]:
  "is_AuthenticationError (AuthenticationError m)"
  by (simp add: is_AuthenticationError_def AuthenticationError_def)

lemma updateProfile_no_session:
  "session_user_of (auth w) = None \<Longrightarrow>
     updateProfile z w fd =
       (Inr (Failure ''You must be signed in to update your profile''),
        console_error w ''Error updating profile:'')"
  by (simp add: updateProfile_def updateProfile_try_def requireUser_no_session)

lemma deleteAccount_no_session:
  "session_user_of (auth w) = None \<Longrightarrow>
     deleteAccount w =
       (Inr (Failure ''You must be signed in to delete your account''),
        console_error w ''Error deleting account:'')"
  by (simp add: deleteAccount_def deleteAccount_try_def requireUser_no_session)

lemma getUserStats_no_session:
  "session_user_of (auth w) = None \<Longrightarrow>
     getUserStats w =
       (Inr (Failure ''You must be signed in to view stats''),
        console_error w ''Error fetching user stats:'')"
  by (simp add: getUserStats_def getUserStats_try_def requireAuth_no_session)

text \<open>
  Without a session the settings route answers 401 before it reads the body, whatever
  the body is.
\<close>

lemma PUT_no_session:
  "session_user_of (auth w) = None \<Longrightarrow>
     PUT z w req = (Response_json (JObj [(''error'', JStr ''Authentication required'')]) 401, w)"
  by (simp add: PUT_def requireApiAuth_no_session)

text \<open>
  Claim C1. When no session user resolves, each checkpoint denies on its own reading of
  the session: the proxy redirects a request that it checks (one for a path that neither
  of its route lists exempts, which is every request the framework hands to it) to the
  sign-in page, the API guard returns the 401 response (and the settings handlers return
  it), and every server action returns a failure result. Each conjunct is about one
  entry point called directly, with nothing assumed about the others having run.
\<close>

theorem no_session_denied_at_each_checkpoint:
  "session_user_of (auth w) = None \<Longrightarrow>
     (\<not> isRouteMatch (pathname (nextUrl req)) authRoutes \<and>
      \<not> isRouteMatch (pathname (nextUrl req)) publicRoutes \<longrightarrow>
        (\<exists>u. proxy w req = Redirect u \<and> pathname u = ''/auth/signin'' \<and>
              origin u = origin (nextUrl req))) \<and>
     requireApiAuth w =
       ApiDenied ''Unauthorized''
         (Response_json (JObj [(''error'', JStr ''Authentication required'')]) 401) \<and>
     status (fst (PUT z w areq)) = 401 \<and>
     status (fst (GET_settings w)) = 401 \<and>
     fst (updateProfile z w fd) = Inr (Failure ''You must be signed in to update your profile'') \<and>
     fst (deleteAccount w) = Inr (Failure ''You must be signed in to delete your account'') \<and>
     fst (getUserStats w) = Inr (Failure ''You must be signed in to view stats'')"
  by (simp add: proxy_no_session requireApiAuth_no_session PUT_no_session
      updateProfile_no_session deleteAccount_no_session getUserStats_no_session
      GET_settings_def Response_json_def)

theorem no_session_denied_at_each_checkpoint_witness:
  "session_user_of (auth signed_out) = None \<and>
   \<not> isRouteMatch (pathname (nextUrl (request_to ''/''))) authRoutes \<and>
   \<not> isRouteMatch (pathname (nextUrl (request_to ''/''))) publicRoutes \<and>
   proxy signed_out (request_to ''/'') =
     Redirect \<lparr>origin = ''http://localhost:3000'', pathname = ''/auth/signin'',
               searchParams = [(''callbackUrl'', ''/'')]\<rparr> \<and>
   status (fst (PUT example_zod signed_out \<lparr>request_json = Inr JNull\<rparr>)) = 401 \<and>
   fst (updateProfile example_zod signed_out []) =
     Inr (Failure ''You must be signed in to update your profile'')"
  using no_session_denied_at_each_checkpoint
    [of signed_out "request_to ''/''" example_zod "\<lparr>request_json = Inr JNull\<rparr>" "[]"]
  by (simp add: signed_out_def auth_def session_user_of_def
      isRouteMatch_def authRoutes_def publicRoutes_def request_to_def proxy_def
      new_URL_def searchParams_set_def)

text \<open>
  Claim C5. A profile update without a session returns the authentication failure (the
  action's failure result; status 401 from the settings route) and writes nothing: the
  rows of the table are the same afterwards.
\<close>

theorem updateProfile_unauthenticated:
  "session_user_of (auth w) = None \<Longrightarrow>
     fst (updateProfile z w fd) = Inr (Failure ''You must be signed in to update your profile'') \<and>
     users (snd (updateProfile z w fd)) = users w \<and>
     status (fst (PUT z w req)) = 401 \<and>
     snd (PUT z w req) = w"
  by (simp add: updateProfile_no_session PUT_no_session console_error_def Response_json_def)

theorem updateProfile_unauthenticated_witness:
  "session_user_of (auth signed_out) = None \<and>
   fst (updateProfile example_zod signed_out [(''name'', FormText ''Eve'')]) =
     Inr (Failure ''You must be signed in to update your profile'') \<and>
   users (snd (updateProfile example_zod signed_out [(''name'', FormText ''Eve'')])) =
     [alice_row, bob_row]"
  using updateProfile_unauthenticated [of signed_out example_zod "[(''name'', FormText ''Eve'')]"]
  by (simp add: signed_out_def auth_def session_user_of_def)

section \<open>Mutations and the account they write\<close>

lemma find_user_id: "find_user rows i = Some r \<Longrightarrow> u_id r = i"
  by (auto simp: find_user_def find_Some_iff)

lemma others_after_replace:
  "u_id r' = i \<Longrightarrow>
     filter (\<lambda>x. u_id x \<noteq> i) (map (\<lambda>x. if u_id x = i then r' else x) rows) =
     filter (\<lambda>x. u_id x \<noteq> i) rows"
  by (induction rows) auto

lemma prisma_user_update_others:
  "prisma_user_update w i n e = Inr (r', w') \<Longrightarrow>
     filter (\<lambda>x. u_id x \<noteq> i) (users w') = filter (\<lambda>x. u_id x \<noteq> i) (users w)"
  by (auto simp: prisma_user_update_def Let_def others_after_replace dest!: find_user_id
      split: option.splits if_splits)

lemma prisma_user_delete_others:
  "prisma_user_delete w i = Inr w' \<Longrightarrow>
     filter (\<lambda>x. u_id x \<noteq> i) (users w') = filter (\<lambda>x. u_id x \<noteq> i) (users w)"
  by (auto simp: prisma_user_delete_def split: option.splits)

lemma updateProfile_others:
  "session_user_of (auth w) = Some u \<Longrightarrow>
     filter (\<lambda>x. u_id x \<noteq> su_id u) (users (snd (updateProfile z w fd))) =
     filter (\<lambda>x. u_id x \<noteq> su_id u) (users w)"
  by (auto simp: updateProfile_def updateProfile_try_def requireUser_session Let_def
      console_error_def revalidatePath_def
      dest: prisma_user_update_others split: safe_parse.splits sum.splits prod.splits)

lemma PUT_others:
  "session_user_of (auth w) = Some u \<Longrightarrow>
     filter (\<lambda>x. u_id x \<noteq> su_id u) (users (snd (PUT z w req))) =
     filter (\<lambda>x. u_id x \<noteq> su_id u) (users w)"
  by (auto simp: PUT_def PUT_try_def requireApiAuth_session console_error_def
      dest: prisma_user_update_others split: safe_parse.splits sum.splits prod.splits)

lemma deleteAccount_others:
  "session_user_of (auth w) = Some u \<Longrightarrow>
     filter (\<lambda>x. u_id x \<noteq> su_id u) (users (snd (deleteAccount w))) =
     filter (\<lambda>x. u_id x \<noteq> su_id u) (users w)"
  by (auto simp: deleteAccount_def deleteAccount_try_def requireUser_session console_error_def
      Let_def dest: prisma_user_delete_others split: sum.splits prod.splits)

lemma PUT_status_session:
  "session_user_of (auth w) = Some u \<Longrightarrow> status (fst (PUT z w req)) \<in> {200, 400, 409, 500}"
  by (auto simp: PUT_def PUT_try_def requireApiAuth_session PUT_catch_def NextResponse_json_def
      internal_server_error_def console_error_def
      split: safe_parse.splits sum.splits prod.splits thrown.splits)

text \<open>
  Alice is signed in and sends an update that names Bob's account (\<^verbatim>\<open>id: "u2"\<close>) beside
  the new name. Neither the route nor the action rejects it: the identifier in the
  request is not read, the answer is a success, and the name is written to Alice's own
  row.
\<close>

theorem cross_account_counterexample:
  "session_user_of (auth signed_in) = Some alice \<and>
   status (fst (PUT example_zod signed_in
      \<lparr>request_json = Inr (JObj [(''id'', JStr ''u2''), (''name'', JStr ''Mallory'')])\<rparr>)) = 200 \<and>
   users (snd (PUT example_zod signed_in
      \<lparr>request_json = Inr (JObj [(''id'', JStr ''u2''), (''name'', JStr ''Mallory'')])\<rparr>)) =
     [alice_row\<lparr>u_name := Some ''Mallory''\<rparr>, bob_row] \<and>
   fst (updateProfile example_zod signed_in
      [(''id'', FormText ''u2''), (''name'', FormText ''Mallory'')]) =
     Inr (Success \<lparr>pd_name = ''Mallory'', pd_email = ''alice@example.com''\<rparr>) \<and>
   users (snd (updateProfile example_zod signed_in
      [(''id'', FormText ''u2''), (''name'', FormText ''Mallory'')])) =
     [alice_row\<lparr>u_name := Some ''Mallory''\<rparr>, bob_row]"
  by (simp add: signed_in_def signed_out_def auth_def session_user_of_def alice_def
      PUT_def PUT_try_def requireApiAuth_def updateSettingsSchema_safeParse_def
      settings_name_issues_def settings_email_issues_def json_string_def example_zod_def
      prisma_user_update_def find_user_def alice_row_def bob_row_def NextResponse_json_def
      updateProfile_def updateProfile_try_def requireUser_def requireAuth_def formData_get_def
      updateProfileSchema_safeParse_def revalidatePath_def or_empty_def Let_def)

text \<open>
  Claim C3, amended. A mutation has no target account of its own: with a session for an
  account it takes the identifier from the session, and whatever the request carries,
  the rows of every other account are the same after the profile action, the settings
  update and the account deletion as before. No answer of the settings route to a
  request with a session is an authorization error: its status is 200, 400, 409 or 500.
\<close>

theorem mutations_write_own_account_only:
  "session_user_of (auth w) = Some u \<Longrightarrow>
     filter (\<lambda>x. u_id x \<noteq> su_id u) (users (snd (updateProfile z w fd))) =
       filter (\<lambda>x. u_id x \<noteq> su_id u) (users w) \<and>
     filter (\<lambda>x. u_id x \<noteq> su_id u) (users (snd (PUT z w req))) =
       filter (\<lambda>x. u_id x \<noteq> su_id u) (users w) \<and>
     filter (\<lambda>x. u_id x \<noteq> su_id u) (users (snd (deleteAccount w))) =
       filter (\<lambda>x. u_id x \<noteq> su_id u) (users w) \<and>
     status (fst (PUT z w req)) \<in> {200, 400, 409, 500}"
  by (simp only: updateProfile_others PUT_others deleteAccount_others PUT_status_session simp_thms)

theorem mutations_write_own_account_only_witness:
  "session_user_of (auth signed_in) = Some alice \<and>
   filter (\<lambda>x. u_id x \<noteq> su_id alice)
     (users (snd (updateProfile example_zod signed_in
        [(''id'', FormText ''u2''), (''name'', FormText ''Mallory'')]))) = [bob_row] \<and>
   filter (\<lambda>x. u_id x \<noteq> su_id alice) (users (snd (deleteAccount signed_in))) = [bob_row]"
  using mutations_write_own_account_only [of signed_in alice example_zod
      "[(''id'', FormText ''u2''), (''name'', FormText ''Mallory'')]"]
  by (simp add: signed_in_def signed_out_def auth_def session_user_of_def alice_def
      alice_row_def bob_row_def)

section \<open>The settings route: validation and conflicts\<close>

text \<open>
  With a session, a JSON body that the schema rejects is answered with status 400 and
  the flattened field errors, and nothing is written or logged.
\<close>

lemma PUT_invalid_body:
  "session_user_of (auth w) = Some u \<Longrightarrow> request_json req = Inr b \<Longrightarrow>
   updateSettingsSchema_safeParse z b = ParseFailure issues \<Longrightarrow>
     PUT z w req =
       (NextResponse_json
          (JObj [(''error'', JStr ''Invalid input''),
                 (''details'',
                  JObj (map (\<lambda>f. (fst f, JArr (map JStr (snd f)))) (fieldErrors issues)))])
          400, w)"
  by (simp add: PUT_def PUT_try_def requireApiAuth_session)

text \<open>
  With a session, a body that \<^verbatim>\<open>request.json()\<close> cannot read is never answered with
  400: the value thrown reaches the \<^verbatim>\<open>catch\<close> block, which answers 409 or 500. Nothing
  is written to the table.
\<close>

lemma PUT_body_not_json:
  "session_user_of (auth w) = Some u \<Longrightarrow> request_json req = Inl e \<Longrightarrow>
     status (fst (PUT z w req)) \<in> {409, 500} \<and> users (snd (PUT z w req)) = users w"
  by (auto simp: PUT_def PUT_try_def requireApiAuth_session PUT_catch_def NextResponse_json_def
      internal_server_error_def console_error_def split: thrown.splits)

text \<open>
  Claim C7. Alice is signed in and sends a body that is not JSON text. The claim asks
  for status 400 on malformed input; the route answers 500.
\<close>

theorem PUT_unparsable_body:
  "session_user_of (auth signed_in) = Some alice \<and>
   fst (PUT example_zod signed_in
      \<lparr>request_json = Inl (Error ''SyntaxError'' ''Unexpected token o in JSON at position 1'')\<rparr>) =
     \<lparr>status = 500, body = JObj [(''error'', JStr ''Internal server error'')]\<rparr>"
  by (simp add: signed_in_def signed_out_def auth_def session_user_of_def
      PUT_def PUT_try_def requireApiAuth_def PUT_catch_def internal_server_error_def
      NextResponse_json_def)

text \<open>
  Claim C8. A settings update with a session, whose validated body sets the email to the
  email of a different account, is answered with status 409 and the message
  \<^verbatim>\<open>Email already in use\<close>, and the rows of the table (both accounts among them) are
  unchanged. The storage works (no fault) and the acting account has a row.
\<close>

theorem PUT_email_conflict:
  "session_user_of (auth w) = Some u \<Longrightarrow> storage_fault w = None \<Longrightarrow>
   find_user (users w) (su_id u) = Some r \<Longrightarrow>
   request_json req = Inr b \<Longrightarrow> updateSettingsSchema_safeParse z b = ParseSuccess d \<Longrightarrow>
   new_email d = Some e \<Longrightarrow>
   other \<in> set (users w) \<Longrightarrow> u_id other \<noteq> su_id u \<Longrightarrow> u_email other = Some e \<Longrightarrow>
     fst (PUT z w req) = NextResponse_json (JObj [(''error'', JStr ''Email already in use'')]) 409 \<and>
     status (fst (PUT z w req)) = 409 \<and>
     users (snd (PUT z w req)) = users w"
  by (auto simp: PUT_def PUT_try_def requireApiAuth_session prisma_user_update_def
      email_taken_def list_ex_iff unique_constraint_failed_def PUT_catch_def
      NextResponse_json_def console_error_def)

theorem PUT_email_conflict_witness:
  "session_user_of (auth signed_in) = Some alice \<and>
   bob_row \<in> set (users signed_in) \<and> u_id bob_row \<noteq> su_id alice \<and>
   u_email bob_row = Some ''bob@example.com'' \<and>
   PUT example_zod signed_in
      \<lparr>request_json = Inr (JObj [(''email'', JStr ''bob@example.com'')])\<rparr> =
     (\<lparr>status = 409, body = JObj [(''error'', JStr ''Email already in use'')]\<rparr>,
      console_error signed_in ''Error updating user settings:'') \<and>
   users (snd (PUT example_zod signed_in
      \<lparr>request_json = Inr (JObj [(''email'', JStr ''bob@example.com'')])\<rparr>)) =
     [alice_row, bob_row]"
  using PUT_email_conflict [of signed_in alice alice_row
      "\<lparr>request_json = Inr (JObj [(''email'', JStr ''bob@example.com'')])\<rparr>"
      "JObj [(''email'', JStr ''bob@example.com'')]" example_zod
      "\<lparr>new_name = None, new_email = Some ''bob@example.com''\<rparr>" "''bob@example.com''" bob_row]
  by (simp add: signed_in_def signed_out_def auth_def session_user_of_def alice_def
      alice_row_def bob_row_def find_user_def updateSettingsSchema_safeParse_def
      settings_name_issues_def settings_email_issues_def json_string_def example_zod_def
      PUT_def PUT_try_def requireApiAuth_def prisma_user_update_def email_taken_def
      unique_constraint_failed_def PUT_catch_def NextResponse_json_def console_error_def)

section \<open>Server actions return a result\<close>

text \<open>
  Claim C9. For every input, session and state of the storage, each of the three actions
  returns a result, success or failure, and throws nothing; whenever its \<^verbatim>\<open>try\<close> block
  throws (the authentication error of the guard, an error of the storage, any other
  value), the action returns a failure result.
\<close>

theorem actions_never_throw:
  "(\<exists>r. fst (updateProfile z w fd) = Inr r) \<and>
   (\<exists>r. fst (deleteAccount w) = Inr r) \<and>
   (\<exists>r. fst (getUserStats w) = Inr r) \<and>
   (fst (updateProfile_try z w fd) = Inl e1 \<longrightarrow>
      (\<exists>m. fst (updateProfile z w fd) = Inr (Failure m))) \<and>
   (fst (deleteAccount_try w) = Inl e2 \<longrightarrow> (\<exists>m. fst (deleteAccount w) = Inr (Failure m))) \<and>
   (fst (getUserStats_try w) = Inl e3 \<longrightarrow> (\<exists>m. fst (getUserStats w) = Inr (Failure m)))"
  by (auto simp: updateProfile_def deleteAccount_def getUserStats_def Let_def
      split: prod.splits sum.splits)

text \<open>
  The storage fails under the profile update, nobody is signed in for the deletion, and
  the signed-in account has no row when the statistics are asked for.
\<close>

theorem actions_never_throw_witness:
  "fst (updateProfile_try example_zod (signed_in\<lparr>storage_fault := Some NonError\<rparr>)
          [(''name'', FormText ''Al'')]) = Inl NonError \<and>
   fst (updateProfile example_zod (signed_in\<lparr>storage_fault := Some NonError\<rparr>)
          [(''name'', FormText ''Al'')]) =
     Inr (Failure ''Failed to update profile. Please try again.'') \<and>
   fst (deleteAccount signed_out) = Inr (Failure ''You must be signed in to delete your account'') \<and>
   fst (getUserStats (signed_in\<lparr>users := []\<rparr>)) = Inr (Failure ''User not found'')"
  using actions_never_throw [of example_zod "signed_in\<lparr>storage_fault := Some NonError\<rparr>"
      "[(''name'', FormText ''Al'')]" NonError]
  by (simp add: signed_in_def signed_out_def auth_def alice_def
      updateProfile_def updateProfile_try_def requireUser_def requireAuth_def formData_get_def
      updateProfileSchema_safeParse_def prisma_user_update_def is_AuthenticationError_def
      AuthenticationError_def deleteAccount_def deleteAccount_try_def getUserStats_def
      getUserStats_try_def prisma_user_findUnique_def find_user_def Let_def)

text \<open>
  Claim C10. Whenever \<^verbatim>\<open>getUserStats\<close> succeeds, \<^verbatim>\<open>lastSignIn\<close> is null and
  \<^verbatim>\<open>accountAge\<close> is the number of whole days between the creation time of the row of
  the signed-in account and the current time: the floor of the elapsed milliseconds
  divided by the 86400000 milliseconds of a day.
\<close>

theorem getUserStats_success:
  "fst (getUserStats w) = Inr (Success st) \<Longrightarrow>
     lastSignIn st = None \<and>
     (\<exists>s user. requireAuth w = Inr s \<and>
        find_user (users w) (su_id (a_user s)) = Some user \<and>
        accountAge st = (Date_now w - u_createdAt user) div 86400000 \<and>
        accountAge st * 86400000 \<le> Date_now w - u_createdAt user \<and>
        Date_now w - u_createdAt user < (accountAge st + 1) * 86400000)"
  by (auto simp: getUserStats_def getUserStats_try_def prisma_user_findUnique_def Let_def
      split: sum.splits option.splits if_splits)

text \<open>Alice's row is three days and five seconds old.\<close>

theorem getUserStats_success_witness:
  "fst (getUserStats signed_in) = Inr (Success \<lparr>accountAge = 3, lastSignIn = None\<rparr>) \<and>
   Date_now signed_in - u_createdAt alice_row = 259205000"
  using getUserStats_success [of signed_in "\<lparr>accountAge = 3, lastSignIn = None\<rparr>"]
  by (simp add: signed_in_def signed_out_def auth_def alice_def alice_row_def bob_row_def
      getUserStats_def getUserStats_try_def requireAuth_def prisma_user_findUnique_def
      find_user_def Date_now_def)

section \<open>The signature counter\<close>

lemma find_map_same_key:
  "(\<And>x. key (f x) = key x) \<Longrightarrow>
     find (\<lambda>x. key x = k) (map f xs) = map_option f (find (\<lambda>x. key x = k) xs)"
  by (induction xs) auto

lemma find_credential_after:
  assumes "find_credential creds k = Some c"
  shows "find_credential (map (\<lambda>x. if cr_id x = k then x\<lparr>cr_counter := n\<rparr> else x) creds) k =
           Some (c\<lparr>cr_counter := n\<rparr>)"
proof -
  from assms have k: "cr_id c = k"
    by (auto simp: find_credential_def find_Some_iff)
  have "find (\<lambda>x. cr_id x = k) (map (\<lambda>x. if cr_id x = k then x\<lparr>cr_counter := n\<rparr> else x) creds) =
        map_option (\<lambda>x. if cr_id x = k then x\<lparr>cr_counter := n\<rparr> else x)
          (find (\<lambda>x. cr_id x = k) creds)"
    by (rule find_map_same_key) simp
  with assms k show ?thesis
    by (simp add: find_credential_def)
qed

text \<open>
  Claim C6. When an authentication ceremony succeeds, the counter stored for the
  credential afterwards is the presented one, and it is strictly greater than the counter
  stored before, or the presented and the stored counter are both zero. An assertion
  whose counter is at most the stored counter, the stored counter not being zero, is
  rejected.
\<close>

theorem signature_counter_monotone:
  "(complete_authentication creds a = Inr (acct, creds') \<longrightarrow>
      (\<exists>c c'. find_credential creds (as_credential a) = Some c \<and>
               find_credential creds' (as_credential a) = Some c' \<and>
               cr_counter c' = as_counter a \<and>
               (cr_counter c < cr_counter c' \<or> (as_counter a = 0 \<and> cr_counter c = 0)))) \<and>
   (find_credential creds (as_credential a) = Some c0 \<and> as_counter a \<le> cr_counter c0 \<and>
    cr_counter c0 \<noteq> 0 \<longrightarrow> (\<exists>e. complete_authentication creds a = Inl e))"
  by (auto simp: complete_authentication_def counter_accepted_def find_credential_after
      split: option.splits if_splits)

theorem signature_counter_monotone_witness:
  "complete_authentication example_credentials
     \<lparr>as_credential = ''k1'', as_counter = 8, as_verified = True\<rparr> =
     Inr (''u1'',
       [\<lparr>cr_id = ''k1'', cr_account = ''u1'', cr_public_key = ''pk1'', cr_counter = 8\<rparr>,
        \<lparr>cr_id = ''k2'', cr_account = ''u2'', cr_public_key = ''pk2'', cr_counter = 0\<rparr>]) \<and>
   complete_authentication example_credentials
     \<lparr>as_credential = ''k1'', as_counter = 7, as_verified = True\<rparr> = Inl CounterRegression \<and>
   complete_authentication example_credentials
     \<lparr>as_credential = ''k2'', as_counter = 0, as_verified = True\<rparr> =
     Inr (''u2'', example_credentials)"
  using signature_counter_monotone [of example_credentials
      "\<lparr>as_credential = ''k1'', as_counter = 8, as_verified = True\<rparr>"]
  by (simp add: complete_authentication_def example_credentials_def find_credential_def
      counter_accepted_def)

end
